theory Spec2Isabelle
  imports Complex_Main "HOL-Library.Word"
begin

unbundle bit_operations_syntax

section \<open>Group0 voter registry\<close>

text \<open>
  \<^verbatim>\<open>raft::server_id\<close> is an opaque identifier; the registry only stores and compares it.
  A \<^verbatim>\<open>std::unordered_set<raft::server_id>\<close> passed to the registry is given by the
  sequence in which the \<^verbatim>\<open>for\<close> loop visits its elements; the set that the voter
  client keeps is a HOL set.
\<close>

type_synonym server_id = nat

datatype can_vote = Yes | No

text \<open>
  The voter client of \<^verbatim>\<open>test/boost/group0_voter_registry_test.cc\<close>: it holds the
  set \<^verbatim>\<open>_voters\<close>; \<^verbatim>\<open>set_voters_status\<close> inserts the nodes for
  \<^verbatim>\<open>can_vote::yes\<close> and erases them otherwise.
\<close>

record raft_voter_client =
  voters :: "server_id set"

definition set_voters_status ::
  "raft_voter_client \<Rightarrow> server_id set \<Rightarrow> can_vote \<Rightarrow> raft_voter_client" where
  "set_voters_status c nodes cv =
     (case cv of
        Yes \<Rightarrow> c\<lparr>voters := voters c \<union> nodes\<rparr>
      | No \<Rightarrow> c\<lparr>voters := voters c - nodes\<rparr>)"

record group0_voter_registry =
  max_voters :: nat

text \<open>
  The loop of \<^verbatim>\<open>insert_nodes\<close>: it leaves at the first node met when
  \<^verbatim>\<open>new_voters.size() >= _max_voters\<close>, and inserts the node otherwise.
\<close>

fun collect_new_voters :: "nat \<Rightarrow> server_id list \<Rightarrow> server_id set \<Rightarrow> server_id set" where
  "collect_new_voters m [] new_voters = new_voters"
| "collect_new_voters m (node # rest) new_voters =
     (if card new_voters \<ge> m then new_voters
      else collect_new_voters m rest (insert node new_voters))"

definition insert_nodes ::
  "group0_voter_registry \<Rightarrow> server_id list \<Rightarrow> raft_voter_client \<Rightarrow> raft_voter_client" where
  "insert_nodes reg nodes c =
     set_voters_status c (collect_new_voters (max_voters reg) nodes {}) Yes"

definition remove_nodes ::
  "group0_voter_registry \<Rightarrow> server_id list \<Rightarrow> raft_voter_client \<Rightarrow> raft_voter_client" where
  "remove_nodes reg nodes c = set_voters_status c (set nodes) No"

definition insert_node ::
  "group0_voter_registry \<Rightarrow> server_id \<Rightarrow> raft_voter_client \<Rightarrow> raft_voter_client" where
  "insert_node reg node c = insert_nodes reg [node] c"

definition remove_node ::
  "group0_voter_registry \<Rightarrow> server_id \<Rightarrow> raft_voter_client \<Rightarrow> raft_voter_client" where
  "remove_node reg node c = remove_nodes reg [node] c"

text \<open>A voter client that holds no voter yet.\<close>

definition no_voters :: raft_voter_client where
  "no_voters = \<lparr>voters = {}\<rparr>"


section \<open>Instance-profile credentials provider\<close>

text \<open>
  A \<^verbatim>\<open>std::chrono::system_clock::time_point\<close> is a number of seconds on the system
  clock; the clock reading \<^verbatim>\<open>now\<close> is an argument of every function that reads it.
\<close>

type_synonym time_point = int

record aws_credentials =
  access_key_id :: string
  secret_access_key :: string
  session_token :: string
  expires_at :: time_point

text \<open>
  Modelled from the spec: \<^verbatim>\<open>utils/s3/creds.hh\<close>, which declares
  \<^verbatim>\<open>s3::aws_credentials\<close> and its conversion to \<^verbatim>\<open>bool\<close>, is not among the
  sources. The spec lists the four fields above and says that a credential is absent if a
  required field is unset; the key id and the secret key are taken as the required fields.
\<close>

definition creds_present :: "aws_credentials \<Rightarrow> bool" where
  "creds_present c = (access_key_id c \<noteq> [] \<and> secret_access_key c \<noteq> [])"

text \<open>The credentials of a provider that has fetched nothing yet.\<close>

definition default_credentials :: aws_credentials where
  "default_credentials =
     \<lparr>access_key_id = [], secret_access_key = [], session_token = [], expires_at = 0\<rparr>"

record http_request =
  http_method :: string
  http_host :: string
  http_path :: string
  http_headers :: "(string \<times> string) list"

text \<open>
  What the EC2 metadata service answers to the three requests of
  \<^verbatim>\<open>update_credentials\<close>: the session token, the role name, and the credentials
  document with its fields \<^verbatim>\<open>AccessKeyId\<close>, \<^verbatim>\<open>SecretAccessKey\<close> and
  \<^verbatim>\<open>Token\<close>. The service modelled answers every request with status 200 and a
  well-formed document.
\<close>

record ec2_metadata_service =
  md_token :: string
  md_role :: string
  md_access_key_id :: string
  md_secret_access_key :: string
  md_session_token :: string

record instance_profile_credentials_provider =
  ec2_metadata_ip :: string
  port :: nat
  creds :: aws_credentials

definition session_duration :: int where
  "session_duration = 21600"

definition is_time_to_refresh :: "instance_profile_credentials_provider \<Rightarrow> time_point \<Rightarrow> bool" where
  "is_time_to_refresh p now = (now \<ge> expires_at (creds p))"

definition parse_creds ::
  "ec2_metadata_service \<Rightarrow> time_point \<Rightarrow> aws_credentials" where
  "parse_creds svc now =
     \<lparr>access_key_id = md_access_key_id svc,
      secret_access_key = md_secret_access_key svc,
      session_token = md_session_token svc,
      expires_at = now + (session_duration - 60)\<rparr>"

text \<open>
  \<^verbatim>\<open>update_credentials\<close> sends three requests and stores the parsed credentials. It
  returns the provider together with the requests it sent, in order.
\<close>

definition update_credentials ::
  "instance_profile_credentials_provider \<Rightarrow> time_point \<Rightarrow> ec2_metadata_service \<Rightarrow>
   instance_profile_credentials_provider \<times> http_request list" where
  "update_credentials p now svc =
     (let token = md_token svc;
          role = md_role svc;
          req1 = \<lparr>http_method = ''PUT'', http_host = ec2_metadata_ip p,
                  http_path = ''/latest/api/token'',
                  http_headers = [(''x-aws-ec2-metadata-token-ttl-seconds'', ''21600'')]\<rparr>;
          req2 = \<lparr>http_method = ''GET'', http_host = ec2_metadata_ip p,
                  http_path = ''/latest/meta-data/iam/security-credentials/'',
                  http_headers = [(''x-aws-ec2-metadata-token'', token)]\<rparr>;
          req3 = \<lparr>http_method = ''GET'', http_host = ec2_metadata_ip p,
                  http_path = ''/latest/meta-data/iam/security-credentials/'' @ role,
                  http_headers = [(''x-aws-ec2-metadata-token'', token)]\<rparr>
      in (p\<lparr>creds := parse_creds svc now\<rparr>, [req1, req2, req3]))"

text \<open>
  \<^verbatim>\<open>reload\<close>, with the condition as the source writes it:
  \<^verbatim>\<open>if (!is_time_to_refresh() || !creds)\<close>.
\<close>

definition reload ::
  "instance_profile_credentials_provider \<Rightarrow> time_point \<Rightarrow> ec2_metadata_service \<Rightarrow>
   instance_profile_credentials_provider \<times> http_request list" where
  "reload p now svc =
     (if \<not> is_time_to_refresh p now \<or> \<not> creds_present (creds p)
      then update_credentials p now svc
      else (p, []))"

definition get_aws_credentials ::
  "instance_profile_credentials_provider \<Rightarrow> time_point \<Rightarrow> ec2_metadata_service \<Rightarrow>
   aws_credentials \<times> instance_profile_credentials_provider \<times> http_request list" where
  "get_aws_credentials p now svc =
     (let (p', reqs) = reload p now svc in (creds p', p', reqs))"

text \<open>A provider that holds credentials expiring at time 1000, and a metadata service.\<close>

definition held_provider :: instance_profile_credentials_provider where
  "held_provider =
     \<lparr>ec2_metadata_ip = ''169.254.169.254'', port = 80,
      creds = \<lparr>access_key_id = ''AKIA'', secret_access_key = ''secret'',
               session_token = ''token'', expires_at = 1000\<rparr>\<rparr>"

definition sample_service :: ec2_metadata_service where
  "sample_service =
     \<lparr>md_token = ''tok'', md_role = ''role'', md_access_key_id = ''AKIB'',
      md_secret_access_key = ''secret2'', md_session_token = ''token2''\<rparr>"

section \<open>Alternator consumed capacity\<close>

text \<open>
  Modelled from the spec: the \<^verbatim>\<open>rjson\<close> wrapper of RapidJSON is not among the
  sources. A JSON value is one of the six JSON kinds; an object is its list of members
  in order; \<^verbatim>\<open>rjson::find\<close> returns the first member of that name, or a null
  pointer; \<^verbatim>\<open>rjson::add\<close> appends a member. A number holds the value of a
  \<^verbatim>\<open>double\<close>, which is a rational.
\<close>

datatype json =
    JNull
  | JBool bool
  | JNumber rat
  | JString string
  | JArray "json list"
  | JObject "(string \<times> json) list"

type_synonym json_object = "(string \<times> json) list"

definition rjson_find :: "json_object \<Rightarrow> string \<Rightarrow> json option" where
  "rjson_find obj name = map_of obj name"


fun IsString :: "json \<Rightarrow> bool" where
  "IsString (JString s) = True"
| "IsString v = False"

fun GetString :: "json \<Rightarrow> string" where
  "GetString (JString s) = s"
| "GetString v = []"

text \<open>
  RapidJSON's \<^verbatim>\<open>GetString()\<close> returns a \<^verbatim>\<open>const char*\<close> to the characters
  of the string, which a NUL ends. The \<^verbatim>\<open>std::string\<close> that
  \<^verbatim>\<open>should_add_capacity\<close> builds from that pointer holds the characters before the
  first NUL of the JSON string.
\<close>

definition std_string :: "string \<Rightarrow> string" where
  "std_string chars = takeWhile (\<lambda>ch. ch \<noteq> CHR 0x00) chars"

datatype api_error = Validation string





definition should_add_capacity :: "json_object \<Rightarrow> api_error + bool" where
  "should_add_capacity request =
     (case rjson_find request ''ReturnConsumedCapacity'' of
        None \<Rightarrow> Inr False
      | Some return_consumed \<Rightarrow>
          if \<not> IsString return_consumed
          then Inl (Validation ''Non-string ReturnConsumedCapacity field in request'')
          else let consumed = std_string (GetString return_consumed)
               in if consumed = ''INDEXES''
                  then Inl (Validation ''INDEXES consumed capacity is not supported'')
                  else Inr (consumed = ''TOTAL''))"


text \<open>
  The two counters are the subclasses of \<^verbatim>\<open>consumed_capacity_counter\<close>; the read
  counter carries \<^verbatim>\<open>_is_quorum\<close>. The virtual \<^verbatim>\<open>get_internal_units\<close>
  dispatches on the kind. A counter starts with no bytes.
\<close>

datatype counter_kind = Rcu bool | Wcu

record consumed_capacity_counter =
  should_add_to_reponse :: bool
  total_bytes :: "64 word"
  kind :: counter_kind

definition rcu_consumed_capacity_counter ::
  "json_object \<Rightarrow> bool \<Rightarrow> api_error + consumed_capacity_counter" where
  "rcu_consumed_capacity_counter request is_quorum =
     (case should_add_capacity request of
        Inl e \<Rightarrow> Inl e
      | Inr b \<Rightarrow> Inr \<lparr>should_add_to_reponse = b, total_bytes = 0, kind = Rcu is_quorum\<rparr>)"

definition wcu_consumed_capacity_counter ::
  "json_object \<Rightarrow> api_error + consumed_capacity_counter" where
  "wcu_consumed_capacity_counter request =
     (case should_add_capacity request of
        Inl e \<Rightarrow> Inl e
      | Inr b \<Rightarrow> Inr \<lparr>should_add_to_reponse = b, total_bytes = 0, kind = Wcu\<rparr>)"



text \<open>
  The conversion of a \<^verbatim>\<open>uint64_t\<close> to \<^verbatim>\<open>double\<close>: a double has a 53-bit
  significand, so a value below \<open>2 ^ 53\<close> is kept, and a longer one is rounded to 53
  significant bits, to the nearest, ties to the even significand. The product of a double
  with 0.5 is exact.
\<close>

fun bit_length :: "nat \<Rightarrow> nat" where
  "bit_length n = (if n = 0 then 0 else Suc (bit_length (n div 2)))"

declare bit_length.simps [simp del]

definition double_of_uint64 :: "64 word \<Rightarrow> rat" where
  "double_of_uint64 w =
     (let n = unat w in
      if n < 2 ^ 53 then of_nat n
      else let s = bit_length n - 53;
               q = n div 2 ^ s;
               r = n mod 2 ^ s;
               half = 2 ^ (s - 1)
           in of_nat ((if r > half \<or> (r = half \<and> odd q) then q + 1 else q) * 2 ^ s))"



section \<open>Retryable HTTP client\<close>

text \<open>
  Modelled from the spec: \<^verbatim>\<open>aws_error.hh\<close> and \<^verbatim>\<open>retry_strategy.hh\<close> are
  not among the sources. An AWS error has a kind, a message and a retryability flag; a retry
  strategy decides \<^verbatim>\<open>should_retry(error, attempt_count)\<close> and gives
  \<^verbatim>\<open>delay_before_retry(error, attempt_count)\<close>. The attempt count is the
  \<^verbatim>\<open>uint32_t retries\<close> of the loop; delays are in milliseconds.
\<close>

datatype aws_error_type = OK | UNKNOWN | OTHER nat

record aws_error =
  error_type :: aws_error_type
  error_message :: string
  is_retryable :: bool

record retry_strategy =
  should_retry :: "aws_error \<Rightarrow> 32 word \<Rightarrow> bool"
  delay_before_retry :: "aws_error \<Rightarrow> 32 word \<Rightarrow> nat"

text \<open>
  What an \<^verbatim>\<open>std::exception_ptr\<close> can hold, as far as the \<^verbatim>\<open>catch\<close> clauses
  of \<^verbatim>\<open>do_retryable_request\<close> tell exceptions apart.
\<close>

datatype exception =
    Aws_exception aws_error
  | System_error int
  | Abort_requested_exception
  | Other_exception string

text \<open>
  The client. The field \<open>http\<close> is the behaviour of the wrapped
  \<^verbatim>\<open>seastar::http::experimental::client\<close> for one request: its \<open>i\<close>-th call of
  \<^verbatim>\<open>make_request\<close> (counted from 0) returns, or throws the exception given.
  \<^verbatim>\<open>aws_error::from_system_error\<close> and the formatting of an exception, which the
  \<^verbatim>\<open>catch\<close> clauses call, are fields too. The error handler is a callback of type
  \<^verbatim>\<open>void(std::exception_ptr)\<close>; the result of a request records the exceptions it
  was called with.
\<close>

record retryable_http_client =
  http :: "nat \<Rightarrow> exception option"
  strategy :: retry_strategy
  from_system_error :: "int \<Rightarrow> aws_error"
  format_exception :: "exception \<Rightarrow> string"

datatype outcome = Completed | Raised exception

record request_result =
  attempts :: nat
  sleeps :: "nat list"
  handled :: "exception list"
  outcome :: outcome

text \<open>The three \<^verbatim>\<open>catch\<close> clauses: the value \<^verbatim>\<open>request_ex\<close> gets.\<close>

definition request_error :: "retryable_http_client \<Rightarrow> exception \<Rightarrow> aws_error" where
  "request_error c ex =
     (case ex of
        Aws_exception err \<Rightarrow> err
      | System_error code \<Rightarrow> from_system_error c code
      | _ \<Rightarrow> \<lparr>error_type = UNKNOWN, error_message = format_exception c ex,
              is_retryable = False\<rparr>)"

text \<open>
  The \<^verbatim>\<open>while (true)\<close> loop. Its state is the counter \<^verbatim>\<open>retries\<close>, the number
  of calls of \<^verbatim>\<open>http.make_request\<close> made so far and the delays slept so far; it ends
  with these and the stored exception \<^verbatim>\<open>e\<close>, which is empty when an attempt
  succeeded. The loop need not end, so the result is an option.
\<close>

partial_function (option) retry_loop ::
  "retryable_http_client \<Rightarrow> 32 word \<Rightarrow> nat \<Rightarrow> nat list \<Rightarrow>
   (nat \<times> nat list \<times> exception option) option" where
  "retry_loop c retries calls slept =
     (case http c calls of
        None \<Rightarrow> Some (Suc calls, slept, None)
      | Some ex \<Rightarrow>
          if \<not> should_retry (strategy c) (request_error c ex) retries
          then Some (Suc calls, slept, Some ex)
          else retry_loop c (retries + 1) (Suc calls)
                 (slept @ [delay_before_retry (strategy c) (request_error c ex) retries]))"

text \<open>
  The abort source is a pointer: \<open>None\<close> is the null pointer, \<open>Some b\<close> an abort
  source whose \<^verbatim>\<open>abort_requested()\<close> is \<open>b\<close> at entry.
\<close>

definition do_retryable_request ::
  "retryable_http_client \<Rightarrow> bool option \<Rightarrow> request_result option" where
  "do_retryable_request c as =
     (if as = Some True
      then Some \<lparr>attempts = 0, sleeps = [], handled = [],
                 outcome = Raised Abort_requested_exception\<rparr>
      else case retry_loop c 0 0 [] of
             None \<Rightarrow> None
           | Some (n, slept, e) \<Rightarrow>
               Some \<lparr>attempts = n, sleeps = slept,
                     handled = (case e of None \<Rightarrow> [] | Some ex \<Rightarrow> [ex]),
                     outcome = Completed\<rparr>)"

text \<open>
  A client whose every attempt fails with a retryable \<^verbatim>\<open>aws_exception\<close>, under a
  strategy that retries retryable errors while fewer than two retries were made.
\<close>

definition slow_down :: aws_error where
  "slow_down = \<lparr>error_type = OTHER 503, error_message = ''SlowDown'', is_retryable = True\<rparr>"

definition two_retries :: retry_strategy where
  "two_retries =
     \<lparr>should_retry = (\<lambda>err n. is_retryable err \<and> n < 2),
      delay_before_retry = (\<lambda>err n. 100 * 2 ^ unat n)\<rparr>"

definition failing_client :: retryable_http_client where
  "failing_client =
     \<lparr>http = (\<lambda>i. Some (Aws_exception slow_down)),
      strategy = two_retries,
      from_system_error = (\<lambda>code. \<lparr>error_type = OTHER 0, error_message = [],
                                     is_retryable = True\<rparr>),
      format_exception = (\<lambda>ex. [])\<rparr>"

section \<open>Delegating reader\<close>

text \<open>
  Modelled from the spec: \<^verbatim>\<open>readers/flat_mutation_reader_v2.hh\<close> is not among the
  sources. Of a \<^verbatim>\<open>flat_mutation_reader_v2\<close> the model keeps the operations that were
  invoked on it, in order.
\<close>

datatype reader_call = Fill_buffer | Fast_forward_to | Next_partition | Close

record flat_mutation_reader_v2 =
  calls :: "reader_call list"

definition reader_close :: "flat_mutation_reader_v2 \<Rightarrow> flat_mutation_reader_v2" where
  "reader_close r = r\<lparr>calls := calls r @ [Close]\<rparr>"

text \<open>
  Readers owned by callers live in a store, at their addresses. The pointer
  \<^verbatim>\<open>_underlying\<close> is the address of a caller's reader, or points into the wrapper's
  own \<^verbatim>\<open>_underlying_holder\<close>.
\<close>

type_synonym reader_store = "nat \<rightharpoonup> flat_mutation_reader_v2"

datatype reader_pointer = Caller_reader nat | Held_reader

record delegating_reader_v2 =
  underlying_holder :: "flat_mutation_reader_v2 option"
  underlying :: reader_pointer

text \<open>The constructor taking an lvalue reference, given the address of the reader.\<close>

definition delegating_reader_v2_ref :: "nat \<Rightarrow> delegating_reader_v2" where
  "delegating_reader_v2_ref r = \<lparr>underlying_holder = None, underlying = Caller_reader r\<rparr>"

text \<open>The constructor taking an rvalue reference: the reader is moved into the holder.\<close>

definition delegating_reader_v2_move :: "flat_mutation_reader_v2 \<Rightarrow> delegating_reader_v2" where
  "delegating_reader_v2_move r = \<lparr>underlying_holder = Some r, underlying = Held_reader\<rparr>"

definition close ::
  "delegating_reader_v2 \<Rightarrow> reader_store \<Rightarrow> delegating_reader_v2 \<times> reader_store" where
  "close d store =
     (case underlying_holder d of
        Some held \<Rightarrow> (d\<lparr>underlying_holder := Some (reader_close held)\<rparr>, store)
      | None \<Rightarrow> (d, store))"

section \<open>CQL selection and result set builder\<close>

text \<open>
  A \<^verbatim>\<open>const column_definition*\<close> is an address; columns are compared by address. A
  cell is a \<^verbatim>\<open>managed_bytes_opt\<close>, a row a vector of cells.
\<close>

type_synonym column_definition_ptr = nat
type_synonym cell = "8 word list option"
type_synonym row = "cell list"

datatype internal_error = Internal_error string

text \<open>
  Modelled from the spec: \<^verbatim>\<open>cql3/selection/selector.hh\<close> is not among the sources. A
  selector has a state, takes the current input row, gives an output cell and can be
  reset.
\<close>

record 'st selector =
  state :: 'st
  add_input :: "row \<Rightarrow> 'st \<Rightarrow> 'st"
  get_output :: "'st \<Rightarrow> cell"
  reset :: "'st \<Rightarrow> 'st"

text \<open>
  The two implementations of \<^verbatim>\<open>selectors\<close>: \<^verbatim>\<open>simple_selectors\<close>, and
  \<^verbatim>\<open>selectors_with_processing\<close> with \<^verbatim>\<open>_factories->does_aggregation()\<close> and
  its vector of selectors.
\<close>

datatype 'st selectors =
    Simple_selectors
  | Selectors_with_processing bool "'st selector list"

fun is_aggregate :: "'st selectors \<Rightarrow> bool" where
  "is_aggregate Simple_selectors = False"
| "is_aggregate (Selectors_with_processing does_aggregation sels) = does_aggregation"

fun selectors_reset :: "'st selectors \<Rightarrow> internal_error + 'st selectors" where
  "selectors_reset Simple_selectors =
     Inl (Internal_error
       ''simple_selectors::reset() called, but we don't support aggregation'')"
| "selectors_reset (Selectors_with_processing does_aggregation sels) =
     Inr (Selectors_with_processing does_aggregation
            (map (\<lambda>s. s\<lparr>state := reset s (state s)\<rparr>) sels))"

fun get_output_row :: "'st selectors \<Rightarrow> internal_error + row" where
  "get_output_row Simple_selectors =
     Inl (Internal_error
       ''simple_selectors::get_output_row() called, but we don't support aggregation'')"
| "get_output_row (Selectors_with_processing does_aggregation sels) =
     Inr (map (\<lambda>s. get_output s (state s)) sels)"

fun add_input_row :: "'st selectors \<Rightarrow> row \<Rightarrow> internal_error + 'st selectors" where
  "add_input_row Simple_selectors cur =
     Inl (Internal_error
       ''simple_selectors::add_input_row() called, but we don't support aggregation'')"
| "add_input_row (Selectors_with_processing does_aggregation sels) cur =
     Inr (Selectors_with_processing does_aggregation
            (map (\<lambda>s. s\<lparr>state := add_input s cur (state s)\<rparr>) sels))"

text \<open>
  \<^verbatim>\<open>transform_input_row\<close> gives the output row, the selectors, and what is left in
  \<^verbatim>\<open>rs.current\<close>: \<^verbatim>\<open>simple_selectors\<close> move the current row out.
\<close>

fun transform_input_row ::
  "'st selectors \<Rightarrow> row \<Rightarrow> internal_error + (row \<times> 'st selectors \<times> row)" where
  "transform_input_row Simple_selectors cur = Inr (cur, Simple_selectors, [])"
| "transform_input_row (Selectors_with_processing does_aggregation sels) cur =
     (case add_input_row (Selectors_with_processing does_aggregation sels) cur of
        Inl e \<Rightarrow> Inl e
      | Inr s1 \<Rightarrow>
          (case get_output_row s1 of
             Inl e \<Rightarrow> Inl e
           | Inr ret \<Rightarrow>
               (case selectors_reset s1 of
                  Inl e \<Rightarrow> Inl e
                | Inr s2 \<Rightarrow> Inr (ret, s2, cur))))"

text \<open>
  A selection: its columns, the two collection flags, and the selectors that the virtual
  \<^verbatim>\<open>new_selectors()\<close> creates.
\<close>

record 'st selection =
  columns :: "column_definition_ptr list"
  collect_timestamps :: bool
  collect_TTLs :: bool
  new_selectors :: "'st selectors"





text \<open>The builder. Time points are seconds, as in the credentials provider.\<close>

record 'st result_set_builder =
  result_set :: "row list"
  selectors :: "'st selectors"
  group_by_cell_indices :: "nat list"
  last_group :: "cell list"
  group_began :: bool
  current :: "row option"
  timestamps :: "int list"
  ttls :: "32 word list"
  builder_now :: int

definition result_set_builder ::
  "'st selection \<Rightarrow> int \<Rightarrow> nat list \<Rightarrow> 'st result_set_builder" where
  "result_set_builder s now_tp group_by =
     \<lparr>result_set = [],
      selectors = new_selectors s,
      group_by_cell_indices = group_by,
      last_group = replicate (length group_by) None,
      group_began = False,
      current = None,
      timestamps = (if collect_timestamps s then replicate (length (columns s)) 0 else []),
      ttls = (if collect_TTLs s then replicate (length (columns s)) 0 else []),
      builder_now = now_tp\<rparr>"

text \<open>
  The group-by cells of the current row. The source indexes the vector unchecked; the
  indices are those of the selection's group-by columns.
\<close>

definition group_cells :: "'st result_set_builder \<Rightarrow> row \<Rightarrow> cell list" where
  "group_cells b cur = map (\<lambda>i. cur ! i) (group_by_cell_indices b)"

definition update_last_group :: "'st result_set_builder \<Rightarrow> row \<Rightarrow> 'st result_set_builder" where
  "update_last_group b cur = b\<lparr>group_began := True, last_group := group_cells b cur\<rparr>"

definition last_group_ended :: "'st result_set_builder \<Rightarrow> row \<Rightarrow> bool" where
  "last_group_ended b cur =
     (if \<not> group_began b then False
      else if last_group b = [] then \<not> is_aggregate (selectors b)
      else \<not> (rev (last_group b) = rev (group_cells b cur)))"

definition flush_selectors ::
  "'st result_set_builder \<Rightarrow> internal_error + 'st result_set_builder" where
  "flush_selectors b =
     (if \<not> is_aggregate (selectors b) then Inr b
      else case get_output_row (selectors b) of
             Inl e \<Rightarrow> Inl e
           | Inr out \<Rightarrow>
               (case selectors_reset (selectors b) of
                  Inl e \<Rightarrow> Inl e
                | Inr s' \<Rightarrow> Inr (b\<lparr>result_set := result_set b @ [out], selectors := s'\<rparr>)))"

definition process_current_row ::
  "'st result_set_builder \<Rightarrow> bool \<Rightarrow> internal_error + 'st result_set_builder" where
  "process_current_row b more_rows_coming =
     (case current b of
        None \<Rightarrow> Inr b
      | Some cur \<Rightarrow>
          if \<not> is_aggregate (selectors b)
          then (case transform_input_row (selectors b) cur of
                  Inl e \<Rightarrow> Inl e
                | Inr (out, s', left) \<Rightarrow>
                    Inr (b\<lparr>result_set := result_set b @ [out], selectors := s',
                           current := Some left\<rparr>))
          else (case (if last_group_ended b cur then flush_selectors b else Inr b) of
                  Inl e \<Rightarrow> Inl e
                | Inr b1 \<Rightarrow>
                    (let b2 = update_last_group b1 cur
                     in case add_input_row (selectors b2) cur of
                          Inl e \<Rightarrow> Inl e
                        | Inr s' \<Rightarrow>
                            (let b3 = b2\<lparr>selectors := s'\<rparr>
                             in if more_rows_coming then Inr (b3\<lparr>current := Some []\<rparr>)
                                else flush_selectors b3))))"

definition new_row :: "'st result_set_builder \<Rightarrow> internal_error + 'st result_set_builder" where
  "new_row b =
     (case process_current_row b True of
        Inl e \<Rightarrow> Inl e
      | Inr b' \<Rightarrow> Inr (b'\<lparr>current := Some []\<rparr>))"

definition build :: "'st result_set_builder \<Rightarrow> internal_error + row list" where
  "build b =
     (case process_current_row b False of
        Inl e \<Rightarrow> Inl e
      | Inr b' \<Rightarrow>
          if result_set b' = [] \<and> is_aggregate (selectors b') \<and> group_by_cell_indices b' = []
          then (case get_output_row (selectors b') of
                  Inl e \<Rightarrow> Inl e
                | Inr out \<Rightarrow> Inr (result_set b' @ [out]))
          else Inr (result_set b'))"

text \<open>
  \<^verbatim>\<open>SELECT COUNT(*)\<close>: one selector that counts the rows it is given in a 64-bit
  integer and puts it out as eight bytes, the most significant first.
\<close>

definition count_rows :: "64 word selector" where
  "count_rows =
     \<lparr>state = 0,
      add_input = (\<lambda>cur n. n + 1),
      get_output = (\<lambda>n. Some (map (\<lambda>i. ucast (drop_bit (8 * i) n)) [7, 6, 5, 4, 3, 2, 1, 0])),
      reset = (\<lambda>n. 0)\<rparr>"

definition count_selection :: "64 word selection" where
  "count_selection =
     \<lparr>columns = [], collect_timestamps = False, collect_TTLs = False,
      new_selectors = Selectors_with_processing True [count_rows]\<rparr>"

section \<open>Group0 voter registry: properties\<close>

lemma collect_new_voters_finite:
  "finite nv \<Longrightarrow> finite (collect_new_voters m nodes nv)"
  by (induction nodes arbitrary: nv) auto

lemma collect_new_voters_card_le:
  "finite nv \<Longrightarrow> card nv \<le> m \<Longrightarrow> card (collect_new_voters m nodes nv) \<le> m"
  by (induction nodes arbitrary: nv) (auto simp: card_insert_if)

lemma collect_new_voters_take:
  "finite nv \<Longrightarrow> distinct nodes \<Longrightarrow> set nodes \<inter> nv = {} \<Longrightarrow>
   collect_new_voters m nodes nv = nv \<union> set (take (m - card nv) nodes)"
  by (induction nodes arbitrary: nv) (auto simp: card_insert_if take_Cons')

lemma voters_insert_nodes:
  "voters (insert_nodes reg nodes c) = voters c \<union> collect_new_voters (max_voters reg) nodes {}"
  by (simp add: insert_nodes_def set_voters_status_def)

text \<open>
  One \<^verbatim>\<open>insert_nodes\<close> call adds to the client's voters the set it collected; that
  set never has more than \<^verbatim>\<open>_max_voters\<close> members; for a duplicate-free iteration
  sequence it is the first \<^verbatim>\<open>_max_voters\<close> nodes visited; and one call with 4 nodes
  and maximum 3 on a client without voters results in exactly 3 voters.
\<close>

lemma insert_nodes_cap_per_call:
  "voters (insert_nodes reg nodes c) = voters c \<union> collect_new_voters (max_voters reg) nodes {}
   \<and> card (collect_new_voters (max_voters reg) nodes {}) \<le> max_voters reg
   \<and> (distinct nodes \<longrightarrow>
        collect_new_voters (max_voters reg) nodes {} = set (take (max_voters reg) nodes))
   \<and> (distinct nodes \<longrightarrow> length nodes = 4 \<longrightarrow> max_voters reg = 3 \<longrightarrow>
        card (voters (insert_nodes reg nodes no_voters)) = 3)"
proof (intro conjI impI)
  show "voters (insert_nodes reg nodes c) = voters c \<union> collect_new_voters (max_voters reg) nodes {}"
    by (rule voters_insert_nodes)
  show "card (collect_new_voters (max_voters reg) nodes {}) \<le> max_voters reg"
    by (rule collect_new_voters_card_le) simp_all
  show take_eq: "collect_new_voters (max_voters reg) nodes {} = set (take (max_voters reg) nodes)"
    if "distinct nodes"
    using collect_new_voters_take [of "{}" nodes "max_voters reg"] that by simp
  show "card (voters (insert_nodes reg nodes no_voters)) = 3"
    if d: "distinct nodes" and l: "length nodes = 4" and m: "max_voters reg = 3"
  proof -
    have "voters (insert_nodes reg nodes no_voters) = set (take 3 nodes)"
      using take_eq [OF d] m by (simp add: voters_insert_nodes no_voters_def)
    moreover have "distinct (take 3 nodes)"
      using d by simp
    ultimately show ?thesis
      using l by (simp add: distinct_card)
  qed
qed

lemma insert_nodes_four_nodes_three_voters:
  "collect_new_voters (max_voters \<lparr>max_voters = 3\<rparr>) [1, 2, 3, 4] {} = {1, 2, 3}
   \<and> card (voters (insert_nodes \<lparr>max_voters = 3\<rparr> [1, 2, 3, 4] no_voters)) = 3"
  using insert_nodes_cap_per_call [of "\<lparr>max_voters = 3\<rparr>" "[1, 2, 3, 4]" no_voters]
  by auto

text \<open>
  C1: the claim bounds by the maximum the number of distinct nodes forwarded with
  \<^verbatim>\<open>can_vote::yes\<close> over every sequence of \<^verbatim>\<open>insert_node\<close> /
  \<^verbatim>\<open>insert_nodes\<close> calls. \<^verbatim>\<open>insert_nodes\<close> compares the maximum with the
  size of the set it collects in the call, not with the number of voters. With maximum 1,
  two calls of \<^verbatim>\<open>insert_node\<close>, for the nodes 1 and 2, each forward their node: the
  client has the two voters 1 and 2.
\<close>

theorem insert_node_twice_exceeds_max_voters:
  "max_voters \<lparr>max_voters = 1\<rparr> = 1
   \<and> voters (insert_node \<lparr>max_voters = 1\<rparr> 1 no_voters) = {1}
   \<and> voters (insert_node \<lparr>max_voters = 1\<rparr> 2
        (insert_node \<lparr>max_voters = 1\<rparr> 1 no_voters)) = {1, 2}
   \<and> card (voters (insert_node \<lparr>max_voters = 1\<rparr> 2
        (insert_node \<lparr>max_voters = 1\<rparr> 1 no_voters))) = 2"
  by (auto simp: insert_node_def insert_nodes_def set_voters_status_def no_voters_def)

text \<open>
  C2: with maximum 3, \<^verbatim>\<open>insert_nodes\<close> on the four nodes 1, 2, 3, 4 (visited in this
  order) makes 1, 2 and 3 voters. \<^verbatim>\<open>remove_node\<close> of voter 1 then only forwards node 1
  with \<^verbatim>\<open>can_vote::no\<close>: the client is left with the two voters 2 and 3, and the
  excluded node 4 is not admitted.
\<close>

theorem remove_node_does_not_refill:
  "voters (insert_nodes \<lparr>max_voters = 3\<rparr> [1, 2, 3, 4] no_voters) = {1, 2, 3}
   \<and> voters (remove_node \<lparr>max_voters = 3\<rparr> 1
        (insert_nodes \<lparr>max_voters = 3\<rparr> [1, 2, 3, 4] no_voters)) = {2, 3}
   \<and> card (voters (remove_node \<lparr>max_voters = 3\<rparr> 1
        (insert_nodes \<lparr>max_voters = 3\<rparr> [1, 2, 3, 4] no_voters))) = 2"
  by (auto simp: remove_node_def remove_nodes_def insert_nodes_def set_voters_status_def
      no_voters_def)

section \<open>Instance-profile credentials provider: properties\<close>

text \<open>
  C3: the claim has \<^verbatim>\<open>reload\<close> fetch exactly when the refresh is due or no credentials
  are held. The source's condition negates \<^verbatim>\<open>is_time_to_refresh()\<close>: what
  \<^verbatim>\<open>reload\<close> does is to send the three requests whenever the refresh is not yet due or
  no credentials are held, and to send nothing, keeping the credentials it has, when
  credentials are held and the refresh is due.
\<close>

theorem reload_fetches_unless_due:
  "(\<not> is_time_to_refresh p now \<or> \<not> creds_present (creds p) \<longrightarrow>
      reload p now svc = update_credentials p now svc
      \<and> length (snd (reload p now svc)) = 3
      \<and> creds (fst (reload p now svc)) = parse_creds svc now)
   \<and> (is_time_to_refresh p now \<and> creds_present (creds p) \<longrightarrow>
      reload p now svc = (p, []))"
  by (simp add: reload_def update_credentials_def Let_def)

text \<open>
  For a provider that holds credentials expiring at time 1000: at time 500 the refresh is not
  due, and \<^verbatim>\<open>reload\<close> sends the three requests; at time 2000 the refresh is due, and
  \<^verbatim>\<open>reload\<close> sends nothing and keeps the expired credentials.
\<close>

theorem reload_fetches_unless_due_witness:
  "creds_present (creds held_provider)
   \<and> \<not> is_time_to_refresh held_provider 500
   \<and> map http_path (snd (reload held_provider 500 sample_service)) =
       [''/latest/api/token'', ''/latest/meta-data/iam/security-credentials/'',
        ''/latest/meta-data/iam/security-credentials/role'']
   \<and> expires_at (creds (fst (reload held_provider 500 sample_service))) = 22040
   \<and> is_time_to_refresh held_provider 2000
   \<and> reload held_provider 2000 sample_service = (held_provider, [])
   \<and> \<not> creds_present default_credentials
   \<and> length (snd (reload (held_provider\<lparr>creds := default_credentials\<rparr>) 2000 sample_service)) = 3"
  using reload_fetches_unless_due [of held_provider 500 sample_service]
        reload_fetches_unless_due [of held_provider 2000 sample_service]
        reload_fetches_unless_due
          [of "held_provider\<lparr>creds := default_credentials\<rparr>" 2000 sample_service]
  by (simp add: update_credentials_def is_time_to_refresh_def creds_present_def
      held_provider_def sample_service_def parse_creds_def session_duration_def
      default_credentials_def Let_def)

section \<open>Alternator consumed capacity: properties\<close>

subsection \<open>Rounding up on 64-bit words\<close>







text \<open>
  A total of \<open>(2 ^ 53 + 1) * 1024\<close> bytes written gives \<open>2 ^ 54 + 2\<close> internal units,
  which no double holds: the reported number is \<open>2 ^ 53\<close>, not \<open>2 ^ 53 + 1\<close>.
\<close>

lemma double_of_uint64_rounds:
  "double_of_uint64 18014398509481986 = 18014398509481984"
  by (simp add: double_of_uint64_def Let_def bit_length.simps)

subsection \<open>C4: internal units and reported units\<close>






subsection \<open>C5 and C9: the ReturnConsumedCapacity field\<close>





text \<open>
  A string that has \<^verbatim>\<open>INDEXES\<close> before its first NUL is rejected like
  \<^verbatim>\<open>INDEXES\<close> itself.
\<close>

lemma indexes_before_nul_rejected:
  "rcu_consumed_capacity_counter
     [(''ReturnConsumedCapacity'', JString (''INDEXES'' @ [CHR 0x00]))] q =
   Inl (Validation ''INDEXES consumed capacity is not supported'')"
  by (simp add: rcu_consumed_capacity_counter_def should_add_capacity_def rjson_find_def
      std_string_def)




text \<open>
  C9: a \<^verbatim>\<open>ReturnConsumedCapacity\<close> member that is present and is not a JSON string
  makes the constructor of either counter raise the validation error
  \<^verbatim>\<open>Non-string ReturnConsumedCapacity field in request\<close>; the value is not taken as a
  request not to report.
\<close>

theorem non_string_return_consumed_capacity_rejected:
  assumes "rjson_find request ''ReturnConsumedCapacity'' = Some v" and "\<not> IsString v"
  shows "rcu_consumed_capacity_counter request q =
           Inl (Validation ''Non-string ReturnConsumedCapacity field in request'')
         \<and> wcu_consumed_capacity_counter request =
           Inl (Validation ''Non-string ReturnConsumedCapacity field in request'')"
  using assms
  by (simp add: rcu_consumed_capacity_counter_def wcu_consumed_capacity_counter_def
      should_add_capacity_def)

theorem non_string_return_consumed_capacity_rejected_witness:
  "rjson_find [(''TableName'', JString ''t''), (''ReturnConsumedCapacity'', JNumber 5)]
     ''ReturnConsumedCapacity'' = Some (JNumber 5)
   \<and> \<not> IsString (JNumber 5)
   \<and> rcu_consumed_capacity_counter
        [(''TableName'', JString ''t''), (''ReturnConsumedCapacity'', JNumber 5)] True =
       Inl (Validation ''Non-string ReturnConsumedCapacity field in request'')
   \<and> wcu_consumed_capacity_counter
        [(''TableName'', JString ''t''), (''ReturnConsumedCapacity'', JNumber 5)] =
       Inl (Validation ''Non-string ReturnConsumedCapacity field in request'')"
proof -
  have f: "rjson_find [(''TableName'', JString ''t''), (''ReturnConsumedCapacity'', JNumber 5)]
     ''ReturnConsumedCapacity'' = Some (JNumber 5)"
    by (simp add: rjson_find_def)
  have s: "\<not> IsString (JNumber 5)"
    by simp
  show ?thesis
    using f s non_string_return_consumed_capacity_rejected [OF f s, of True] by simp
qed

section \<open>Retryable HTTP client: properties\<close>

lemma retry_loop_exhausts:
  fixes N k :: "32 word"
  assumes fails: "\<And>i. \<exists>ex. http c i = Some ex \<and> is_retryable (request_error c ex)"
    and strat: "\<And>err j. is_retryable err \<Longrightarrow> should_retry (strategy c) err j = (j < N)"
  shows "unat N - unat k = d \<Longrightarrow> k \<le> N \<Longrightarrow>
         \<exists>slept' ex. retry_loop c k n slept = Some (n + d + 1, slept', Some ex)
           \<and> http c (n + d) = Some ex \<and> length slept' = length slept + d"
proof (induction d arbitrary: k n slept)
  case 0
  then have kN: "k = N"
    by (simp add: word_le_nat_alt word_unat_eq_iff)
  obtain ex where ex: "http c n = Some ex" "is_retryable (request_error c ex)"
    using fails by blast
  have "\<not> should_retry (strategy c) (request_error c ex) k"
    using strat [OF ex(2)] kN by simp
  then show ?case
    using ex by (subst retry_loop.simps) simp
next
  case (Suc d)
  then have lt: "k < N"
    by (simp add: word_less_nat_alt)
  obtain ex where ex: "http c n = Some ex" "is_retryable (request_error c ex)"
    using fails by blast
  have retry: "should_retry (strategy c) (request_error c ex) k"
    using strat [OF ex(2)] lt by simp
  have "unat k < unat N"
    using lt by (simp add: word_less_nat_alt)
  moreover have "unat N < 2 ^ 32"
    using unsigned_less [of N, where 'a = nat] by simp
  ultimately have room: "unat k + unat (1 :: 32 word) < 2 ^ LENGTH(32)"
    by simp
  have suc: "unat (k + 1) = Suc (unat k)"
    using unat_add_lem [THEN iffD1, OF room] by simp
  have le: "k + 1 \<le> N"
    using \<open>unat k < unat N\<close> suc by (simp add: word_le_nat_alt)
  have d: "unat N - unat (k + 1) = d"
    using Suc.prems(1) suc by simp
  from Suc.IH [OF d le, of "Suc n" "slept @ [delay_before_retry (strategy c) (request_error c ex) k]"]
  obtain slept' ex' where
    "retry_loop c (k + 1) (Suc n) (slept @ [delay_before_retry (strategy c) (request_error c ex) k])
       = Some (Suc n + d + 1, slept', Some ex')"
    "http c (Suc n + d) = Some ex'"
    "length slept' = length (slept @ [delay_before_retry (strategy c) (request_error c ex) k]) + d"
    by blast
  then show ?case
    using ex retry by (subst retry_loop.simps) simp
qed

lemma do_retryable_request_aborted:
  "do_retryable_request c (Some True) =
     Some \<lparr>attempts = 0, sleeps = [], handled = [], outcome = Raised Abort_requested_exception\<rparr>"
  by (simp add: do_retryable_request_def)

text \<open>
  C6: take a request that enters the retry loop (its abort source is the null pointer or has
  no abort requested at entry) and whose every attempt fails with a retryable error, under
  a strategy whose \<^verbatim>\<open>should_retry\<close> holds for such errors exactly at the attempt
  counts below \<open>N\<close>. Then \<^verbatim>\<open>do_retryable_request\<close> returns: it has made exactly
  \<open>N + 1\<close> attempts, slept \<open>N\<close> times, called the error handler once, with the
  exception of the last attempt, and it completes without raising.
\<close>

theorem retry_exhaustion:
  fixes N :: "32 word"
  assumes not_aborted: "as \<noteq> Some True"
    and fails: "\<forall>i. \<exists>ex. http c i = Some ex \<and> is_retryable (request_error c ex)"
    and strat: "\<forall>err j. is_retryable err \<longrightarrow> should_retry (strategy c) err j = (j < N)"
  shows "map_option attempts (do_retryable_request c as) = Some (unat N + 1)
         \<and> map_option handled (do_retryable_request c as) = Some [the (http c (unat N))]
         \<and> map_option outcome (do_retryable_request c as) = Some Completed
         \<and> map_option (length \<circ> sleeps) (do_retryable_request c as) = Some (unat N)"
proof -
  have "\<exists>slept' ex. retry_loop c 0 0 [] = Some (0 + unat N + 1, slept', Some ex)
           \<and> http c (0 + unat N) = Some ex \<and> length slept' = length ([] :: nat list) + unat N"
    by (rule retry_loop_exhausts [where N = N]) (use fails strat in auto)
  then obtain slept' ex where
    "retry_loop c 0 0 [] = Some (unat N + 1, slept', Some ex)"
    "http c (unat N) = Some ex" "length slept' = unat N"
    by auto
  then show ?thesis
    using not_aborted by (simp add: do_retryable_request_def)
qed

theorem retry_exhaustion_witness:
  "map_option attempts (do_retryable_request failing_client None) = Some 3
   \<and> map_option handled (do_retryable_request failing_client None) = Some [Aws_exception slow_down]
   \<and> map_option outcome (do_retryable_request failing_client None) = Some Completed
   \<and> map_option (length \<circ> sleeps) (do_retryable_request failing_client None) = Some 2"
proof -
  have a: "None \<noteq> Some True"
    by simp
  have f: "\<forall>i. \<exists>ex. http failing_client i = Some ex
             \<and> is_retryable (request_error failing_client ex)"
    by (simp add: failing_client_def request_error_def slow_down_def)
  have s: "\<forall>err j. is_retryable err \<longrightarrow>
             should_retry (strategy failing_client) err j = (j < 2)"
    by (simp add: failing_client_def two_retries_def)
  show ?thesis
    using retry_exhaustion [OF a f s] by (simp add: failing_client_def)
qed

section \<open>Delegating reader: properties\<close>

text \<open>
  C8: \<^verbatim>\<open>close()\<close> of a wrapper constructed from an rvalue closes the reader it holds
  exactly once, and changes no reader of a caller; \<^verbatim>\<open>close()\<close> of a wrapper
  constructed from an lvalue reference changes neither the wrapper nor any reader in the
  store, the referenced one included.
\<close>

theorem close_owned_and_borrowed:
  "close (delegating_reader_v2_move r) store =
     (\<lparr>underlying_holder = Some (r\<lparr>calls := calls r @ [Close]\<rparr>), underlying = Held_reader\<rparr>,
      store)
   \<and> close (delegating_reader_v2_ref a) store = (delegating_reader_v2_ref a, store)"
  by (simp add: close_def delegating_reader_v2_move_def delegating_reader_v2_ref_def
      reader_close_def)

section \<open>CQL selection and result set builder: properties\<close>

subsection \<open>Column lookup\<close>









subsection \<open>Building a result set\<close>

text \<open>
  Two rows begun and none added to: \<^verbatim>\<open>COUNT(*)\<close> gives one row with the count 2.
\<close>

lemma count_two_rows:
  "(case new_row (result_set_builder count_selection 0 []) of
      Inl e \<Rightarrow> Inl e
    | Inr b1 \<Rightarrow> (case new_row b1 of Inl e \<Rightarrow> Inl e | Inr b2 \<Rightarrow> build b2))
   = Inr [[Some [0, 0, 0, 0, 0, 0, 0, 2]]]"
  by (simp add: new_row_def build_def result_set_builder_def process_current_row_def
      count_selection_def count_rows_def last_group_ended_def update_last_group_def
      group_cells_def flush_selectors_def)

text \<open>
  C7: a builder made for an aggregating selection with an empty list of group-by cell
  indices, on which \<^verbatim>\<open>new_row()\<close> was never called, builds a result set of exactly one
  row, the output row of the selectors as \<^verbatim>\<open>new_selectors()\<close> created them. For
  \<^verbatim>\<open>COUNT(*)\<close> that row holds the count 0.
\<close>

theorem build_without_rows_emits_identity:
  assumes "is_aggregate (new_selectors s)"
  shows "\<exists>out. get_output_row (new_selectors s) = Inr out
           \<and> build (result_set_builder s tp []) = Inr [out]"
proof (cases "new_selectors s")
  case Simple_selectors
  with assms show ?thesis by simp
next
  case (Selectors_with_processing does_aggregation sels)
  with assms show ?thesis
    by (simp add: build_def result_set_builder_def process_current_row_def)
qed

theorem build_without_rows_emits_identity_witness:
  "is_aggregate (new_selectors count_selection)
   \<and> build (result_set_builder count_selection 0 []) = Inr [[Some [0, 0, 0, 0, 0, 0, 0, 0]]]"
proof -
  have a: "is_aggregate (new_selectors count_selection)"
    by (simp add: count_selection_def)
  have "get_output_row (new_selectors count_selection) = Inr [Some [0, 0, 0, 0, 0, 0, 0, 0]]"
    by (simp add: count_selection_def count_rows_def)
  then show ?thesis
    using a build_without_rows_emits_identity [OF a, of 0] by auto
qed

end
